theory Spec2Isabelle
  imports Main "HOL-Library.AList"
begin

section \<open>Data model (src/shared/types/index.ts)\<close>

text \<open>
  Money amounts and stock quantities are TypeScript \<open>number\<close>s, that is doubles. They
  are modelled as \<open>int\<close>: whole numbers of the smallest currency unit (the spec's data
  model), so \<open>57.50\<close> is \<open>5750\<close>. On whole numbers below \<open>2^53\<close> in magnitude the
  comparisons, sums and differences of the source are exact and agree with \<open>int\<close>; every
  number of the concrete stores and calls below is in that range, and no general
  statement below concludes anything about a computed sum or difference. Negative values
  are representable, as they are in the source.
  A \<open>Date\<close> is a \<open>nat\<close> (milliseconds); every function that calls \<open>new Date()\<close>
  takes the current time \<open>now\<close> as its first argument.

  Field names are the source's where they are unique; a field name that several
  interfaces share (\<open>status\<close>, \<open>updatedAt\<close>, \<open>companyId\<close>, \<open>total\<close>, \<open>quantity\<close>,
  \<open>isActive\<close>, \<open>paymentTransactionId\<close>) carries the interface as a prefix. Only the
  fields that the SDK reads or writes are kept.
\<close>

datatype payment_type = wallet_topup | invoice_payment | product_purchase | transfer

datatype source_app = payflow | invoiceflow | stockflow

datatype transaction_status = tx_pending | tx_completed | tx_failed | tx_cancelled

datatype invoice_status = inv_draft | inv_sent | inv_paid | inv_overdue | inv_cancelled

datatype order_status = ord_pending | ord_paid | ord_shipped | ord_delivered | ord_cancelled

record user =
  email :: string
  walletBalance :: int
  isActive :: bool
  user_updatedAt :: nat

record company =
  ownerId :: string

text \<open>
  The argument object of \<open>processPayment\<close>. An absent \<open>metadata\<close> is the empty
  list, which is what \<open>data.metadata || {}\<close> stores.
\<close>

record payment_data =
  payerId :: string
  receiverId :: string
  companyId :: "string option"
  amount :: int
  ptype :: payment_type
  sourceApp :: source_app
  description :: string
  metadata :: "(string \<times> string) list"

text \<open>A stored transaction document: the payment data plus status and timestamps.\<close>

record txn = payment_data +
  status :: transaction_status
  createdAt :: nat
  updatedAt :: nat

record invoice =
  inv_companyId :: string
  invoiceNumber :: string
  inv_total :: int
  inv_status :: invoice_status
  dueDate :: nat
  paidAt :: "nat option"
  inv_paymentTransactionId :: "nat option"
  inv_updatedAt :: nat

record order_item =
  productId :: string
  item_quantity :: int

record order =
  ord_companyId :: string
  customerId :: string
  items :: "order_item list"
  ord_total :: int
  ord_status :: order_status
  ord_paymentTransactionId :: "nat option"
  ord_updatedAt :: nat

record product =
  name :: string
  prod_quantity :: int
  prod_isActive :: bool
  prod_updatedAt :: nat

text \<open>
  The document store. \<open>users\<close> is an association list (document id, document), because
  \<open>getUserByEmail\<close> queries it by a field and takes the first hit; the other keyed
  collections are maps. \<open>transactions\<close> is the list of transaction documents in
  creation order; the auto-generated id of a new document is its position in the list.
\<close>

record db =
  users :: "(string \<times> user) list"
  companies :: "string \<rightharpoonup> company"
  invoices :: "string \<rightharpoonup> invoice"
  orders :: "string \<rightharpoonup> order"
  products :: "string \<rightharpoonup> product"
  transactions :: "txn list"

text \<open>
  The failures of the SDK, one constructor per error message of the source. In the spec's
  vocabulary: \<open>Payer_not_found\<close> and \<open>Receiver_not_found\<close> are AccountNotFound,
  \<open>Users_inactive\<close> is AccountInactive, \<open>Insufficient_wallet_balance\<close> is
  InsufficientFunds, \<open>Invoice_already_paid\<close> and \<open>Order_already_paid\<close> are
  AlreadySettled, \<open>Insufficient_stock\<close> is InsufficientStock, \<open>Recipient_not_found\<close> is
  ReceiverNotFound, \<open>Not_own_order\<close> is OwnershipMismatch. The last two are errors of
  the Firestore client: \<open>Undefined_field_value\<close> is \<^emph>\<open>Unsupported field value:
  undefined\<close>, \<open>Read_after_write\<close> is \<^emph>\<open>Firestore transactions require all reads
  to be executed before all writes\<close>.
\<close>

datatype error =
    Payer_not_found
  | Receiver_not_found
  | Users_inactive
  | Insufficient_wallet_balance
  | Invoice_not_found
  | Invoice_already_paid
  | Invoice_cancelled
  | Invoice_overdue
  | Company_not_found
  | Order_not_found
  | Order_already_paid
  | Order_cancelled
  | Not_own_order
  | Product_not_found string
  | Insufficient_stock string
  | Recipient_not_found
  | Amount_not_positive
  | Amount_exceeds_limit
  | No_document_to_update
  | Undefined_field_value
  | Read_after_write

section \<open>Store transactions\<close>

text \<open>
  Inside \<open>runTransaction\<close> every \<open>transaction.get\<close> reads the snapshot taken when the
  transaction starts (spec, section 1: snapshot isolation), and \<open>transaction.update\<close> and
  \<open>transaction.set\<close> are buffered; the buffer is applied, in order, when the body
  returns, and dropped when the body throws. Two buffered updates of one document are
  both applied, so the later one decides the fields they share.

  The store is the Firestore client as \<open>src/shared/config/firebase.ts\<close> creates it
  (\<open>getFirestore(app)\<close>, no \<open>ignoreUndefinedProperties\<close>). Two of its rules decide
  what the SDK does, and each body below writes them out where they apply:
  \<^item> \<open>transaction.set\<close> throws when a field of the data is \<open>undefined\<close>;
  \<^item> \<open>transaction.get\<close> throws when the transaction has already buffered a write.
\<close>

datatype tx_write =
    Update_user string int nat
  | Update_product string int nat
  | Set_transaction txn

fun apply_write :: "db \<Rightarrow> tx_write \<Rightarrow> db" where
  "apply_write d (Update_user uid b t) =
     (case map_of (users d) uid of
        None \<Rightarrow> d
      | Some u \<Rightarrow> d\<lparr>users := AList.update uid (u\<lparr>walletBalance := b, user_updatedAt := t\<rparr>) (users d)\<rparr>)"
| "apply_write d (Update_product pid q t) =
     (case products d pid of
        None \<Rightarrow> d
      | Some p \<Rightarrow> d\<lparr>products := (products d)(pid \<mapsto> p\<lparr>prod_quantity := q, prod_updatedAt := t\<rparr>)\<rparr>)"
| "apply_write d (Set_transaction t) = d\<lparr>transactions := transactions d @ [t]\<rparr>"

fun commit :: "db \<Rightarrow> tx_write list \<Rightarrow> db" where
  "commit d [] = d"
| "commit d (w # ws) = commit (apply_write d w) ws"

fun runTransaction :: "(db \<Rightarrow> error + (tx_write list \<times> 'r)) \<Rightarrow> db \<Rightarrow> db \<times> (error + 'r)" where
  "runTransaction body d =
     (case body d of
        Inl e \<Rightarrow> (d, Inl e)
      | Inr (ws, r) \<Rightarrow> (commit d ws, Inr r))"

section \<open>The ledger transfer (src/shared/sdk/core.ts, processPayment)\<close>

text \<open>
  The body of the transaction, in the order of the source: the two reads, the four
  throws, the buffered balance updates, and the \<open>transaction.set\<close> of the record. The
  record has the field \<open>companyId: data.companyId\<close>; when the caller gave no
  \<open>companyId\<close> that field is \<open>undefined\<close> and \<open>set\<close> throws, after the updates were
  buffered and before anything is committed.
\<close>

fun processPayment_body :: "nat \<Rightarrow> payment_data \<Rightarrow> db \<Rightarrow> error + (tx_write list \<times> nat)" where
  "processPayment_body now data d =
     (case map_of (users d) (payerId data) of
        None \<Rightarrow> Inl Payer_not_found
      | Some payerData \<Rightarrow>
     (case map_of (users d) (receiverId data) of
        None \<Rightarrow> Inl Receiver_not_found
      | Some receiverData \<Rightarrow>
          if \<not> isActive payerData \<or> \<not> isActive receiverData then Inl Users_inactive
          else if ptype data \<noteq> wallet_topup \<and> walletBalance payerData < amount data
            then Inl Insufficient_wallet_balance
          else (case companyId data of
             None \<Rightarrow> Inl Undefined_field_value
           | Some c \<Rightarrow> Inr
            ((if ptype data \<noteq> wallet_topup
                then [Update_user (payerId data) (walletBalance payerData - amount data) now]
                else [])
             @ [Update_user (receiverId data) (walletBalance receiverData + amount data) now,
                Set_transaction
                  \<lparr>payerId = payerId data, receiverId = receiverId data,
                   companyId = Some c, amount = amount data, ptype = ptype data,
                   sourceApp = sourceApp data, description = description data,
                   metadata = metadata data,
                   status = tx_completed, createdAt = now, updatedAt = now\<rparr>],
             length (transactions d)))))"

fun processPayment :: "nat \<Rightarrow> db \<Rightarrow> payment_data \<Rightarrow> db \<times> (error + nat)" where
  "processPayment now d data = runTransaction (processPayment_body now data) d"

section \<open>Invoice settlement (payInvoice)\<close>

text \<open>
  \<open>payInvoice\<close> makes three separate round trips to the store: the two \<open>getDoc\<close> reads
  with the status check (\<open>payInvoice_load\<close>), and then the ledger transfer followed by
  the \<open>updateDoc\<close> patch of the invoice (\<open>payInvoice_settle\<close>). Only the transfer runs
  inside \<open>runTransaction\<close>. A call that is not interleaved with another one is the two
  phases in sequence on the same store.
\<close>

fun payInvoice_load :: "db \<Rightarrow> string \<Rightarrow> error + (invoice \<times> company)" where
  "payInvoice_load d invoiceId =
     (case invoices d invoiceId of
        None \<Rightarrow> Inl Invoice_not_found
      | Some invoice \<Rightarrow>
          if inv_status invoice = inv_paid then Inl Invoice_already_paid
          else (case companies d (inv_companyId invoice) of
                  None \<Rightarrow> Inl Company_not_found
                | Some company \<Rightarrow> Inr (invoice, company)))"

fun payInvoice_settle ::
  "nat \<Rightarrow> db \<Rightarrow> string \<Rightarrow> string \<Rightarrow> invoice \<times> company \<Rightarrow> db \<times> (error + nat)" where
  "payInvoice_settle now d invoiceId payer (invoice, company) =
     (case processPayment now d
        \<lparr>payerId = payer, receiverId = ownerId company,
         companyId = Some (inv_companyId invoice), amount = inv_total invoice,
         ptype = invoice_payment, sourceApp = invoiceflow,
         description = ''Payment for Invoice '' @ invoiceNumber invoice,
         metadata = [(''invoiceId'', invoiceId)]\<rparr> of
        (d', Inl e) \<Rightarrow> (d', Inl e)
      | (d', Inr transactionId) \<Rightarrow>
          (case invoices d' invoiceId of
             None \<Rightarrow> (d', Inl No_document_to_update)
           | Some i \<Rightarrow>
               (d'\<lparr>invoices := (invoices d')(invoiceId \<mapsto>
                    i\<lparr>inv_status := inv_paid, paidAt := Some now,
                      inv_paymentTransactionId := Some transactionId,
                      inv_updatedAt := now\<rparr>)\<rparr>,
                Inr transactionId)))"

fun payInvoice :: "nat \<Rightarrow> db \<Rightarrow> string \<Rightarrow> string \<Rightarrow> db \<times> (error + nat)" where
  "payInvoice now d invoiceId payer =
     (case payInvoice_load d invoiceId of
        Inl e \<Rightarrow> (d, Inl e)
      | Inr loaded \<Rightarrow> payInvoice_settle now d invoiceId payer loaded)"

section \<open>Order settlement (payOrder, updateProductStock)\<close>

text \<open>
  The loop of \<open>updateProductStock\<close>, inside one transaction: each item reads its product
  from the snapshot \<open>ps\<close>, throws when the product is missing or short, and buffers the
  decrement otherwise. \<open>written\<close> says whether an earlier item has buffered its
  decrement; the \<open>transaction.get\<close> of an item then throws.
\<close>

fun updateProductStock_loop ::
  "nat \<Rightarrow> (string \<rightharpoonup> product) \<Rightarrow> bool \<Rightarrow> order_item list \<Rightarrow> error + tx_write list" where
  "updateProductStock_loop now ps written [] = Inr []"
| "updateProductStock_loop now ps written (item # rest) =
     (if written then Inl Read_after_write
      else (case ps (productId item) of
        None \<Rightarrow> Inl (Product_not_found (productId item))
      | Some product \<Rightarrow>
          if prod_quantity product < item_quantity item
          then Inl (Insufficient_stock (name product))
          else (case updateProductStock_loop now ps True rest of
                  Inl e \<Rightarrow> Inl e
                | Inr ws \<Rightarrow>
                    Inr (Update_product (productId item)
                           (prod_quantity product - item_quantity item) now # ws))))"

fun updateProductStock_body ::
  "nat \<Rightarrow> order_item list \<Rightarrow> db \<Rightarrow> error + (tx_write list \<times> unit)" where
  "updateProductStock_body now its d =
     (case updateProductStock_loop now (products d) False its of
        Inl e \<Rightarrow> Inl e
      | Inr ws \<Rightarrow> Inr (ws, ()))"

fun updateProductStock :: "nat \<Rightarrow> db \<Rightarrow> order_item list \<Rightarrow> db \<times> (error + unit)" where
  "updateProductStock now d its = runTransaction (updateProductStock_body now its) d"

fun payOrder :: "nat \<Rightarrow> db \<Rightarrow> string \<Rightarrow> string \<Rightarrow> db \<times> (error + nat)" where
  "payOrder now d orderId payer =
     (case orders d orderId of
        None \<Rightarrow> (d, Inl Order_not_found)
      | Some order \<Rightarrow>
          if ord_status order = ord_paid then (d, Inl Order_already_paid)
          else (case companies d (ord_companyId order) of
             None \<Rightarrow> (d, Inl Company_not_found)
           | Some company \<Rightarrow>
              (case updateProductStock now d (items order) of
                 (d1, Inl e) \<Rightarrow> (d1, Inl e)
               | (d1, Inr _) \<Rightarrow>
                  (case processPayment now d1
                     \<lparr>payerId = payer, receiverId = ownerId company,
                      companyId = Some (ord_companyId order), amount = ord_total order,
                      ptype = product_purchase, sourceApp = stockflow,
                      description = ''Payment for Order '' @ orderId,
                      metadata = [(''orderId'', orderId)]\<rparr> of
                     (d2, Inl e) \<Rightarrow> (d2, Inl e)
                   | (d2, Inr transactionId) \<Rightarrow>
                       (case orders d2 orderId of
                          None \<Rightarrow> (d2, Inl No_document_to_update)
                        | Some found \<Rightarrow>
                            (d2\<lparr>orders := (orders d2)(orderId \<mapsto>
                                 found\<lparr>ord_status := ord_paid,
                                    ord_paymentTransactionId := Some transactionId,
                                    ord_updatedAt := now\<rparr>)\<rparr>,
                             Inr transactionId))))))"

section \<open>Wallet top-up and peer transfer\<close>

datatype topup_method = momo | bank_transfer

fun method_name :: "topup_method \<Rightarrow> string" where
  "method_name momo = ''momo''"
| "method_name bank_transfer = ''bank_transfer''"

text \<open>
  \<open>{ paymentMethod: method, ...metadata }\<close>: the caller's keys come after
  \<open>paymentMethod\<close> and replace it when they repeat it. Neither \<open>topUpWallet\<close> nor
  \<open>transferMoney\<close> gives \<open>processPayment\<close> a \<open>companyId\<close>.
\<close>

fun topUpWallet ::
  "nat \<Rightarrow> db \<Rightarrow> string \<Rightarrow> int \<Rightarrow> topup_method \<Rightarrow> (string \<times> string) list \<Rightarrow> db \<times> (error + nat)" where
  "topUpWallet now d userId amt method md =
     processPayment now d
       \<lparr>payerId = userId, receiverId = userId, companyId = None, amount = amt,
        ptype = wallet_topup, sourceApp = payflow,
        description = ''Wallet top-up via '' @ method_name method,
        metadata = AList.updates (map fst md) (map snd md)
                      [(''paymentMethod'', method_name method)]\<rparr>"



section \<open>Business validation (src/shared/middleware/validation.ts)\<close>

text \<open>
  The checks of \<open>BusinessValidation\<close>: \<open>None\<close> is \<open>{ valid: true }\<close>, \<open>Some e\<close> is
  \<open>{ valid: false, error }\<close>. No function of the SDK calls them.
\<close>

fun validatePaymentAmount :: "int \<Rightarrow> error option" where
  "validatePaymentAmount amt =
     (if amt \<le> 0 then Some Amount_not_positive
      else if amt > 100000 then Some Amount_exceeds_limit
      else None)"

fun validateInvoicePayment :: "nat \<Rightarrow> invoice \<Rightarrow> string \<Rightarrow> error option" where
  "validateInvoicePayment now invoice payer =
     (if inv_status invoice = inv_paid then Some Invoice_already_paid
      else if inv_status invoice = inv_cancelled then Some Invoice_cancelled
      else if now > dueDate invoice then Some Invoice_overdue
      else None)"

fun validateOrderPayment :: "order \<Rightarrow> string \<Rightarrow> error option" where
  "validateOrderPayment order payer =
     (if ord_status order = ord_paid then Some Order_already_paid
      else if ord_status order = ord_cancelled then Some Order_cancelled
      else if customerId order \<noteq> payer then Some Not_own_order
      else None)"

section \<open>The mobile-money webhook (src/functions/src/index.ts, momoWebhook)\<close>




section \<open>Composite operations and observations\<close>

text \<open>
  Two calls of \<open>payInvoice\<close> for the same invoice, by \<open>payerA\<close> and \<open>payerB\<close>, scheduled
  so that both finish their reads before either starts its transfer: both read the
  store \<open>d\<close>, then the first call settles, then the second one settles on what the first
  one left.
\<close>

fun payInvoice_race ::
  "nat \<Rightarrow> db \<Rightarrow> string \<Rightarrow> string \<Rightarrow> string \<Rightarrow> db \<times> (error + nat) \<times> (error + nat)" where
  "payInvoice_race now d invoiceId payerA payerB =
     (case (payInvoice_load d invoiceId, payInvoice_load d invoiceId) of
        (Inl ea, Inl eb) \<Rightarrow> (d, Inl ea, Inl eb)
      | (Inl ea, Inr loadedB) \<Rightarrow>
          (case payInvoice_settle now d invoiceId payerB loadedB of
             (d2, rb) \<Rightarrow> (d2, Inl ea, rb))
      | (Inr loadedA, Inl eb) \<Rightarrow>
          (case payInvoice_settle now d invoiceId payerA loadedA of
             (d1, ra) \<Rightarrow> (d1, ra, Inl eb))
      | (Inr loadedA, Inr loadedB) \<Rightarrow>
          (case payInvoice_settle now d invoiceId payerA loadedA of
             (d1, ra) \<Rightarrow>
               (case payInvoice_settle now d1 invoiceId payerB loadedB of
                  (d2, rb) \<Rightarrow> (d2, ra, rb))))"



text \<open>The sum of all wallet balances, and the balance of one account.\<close>

fun balance_sum :: "db \<Rightarrow> int" where
  "balance_sum d = sum_list (map (\<lambda>(uid, u). walletBalance u) (users d))"

fun balance_of :: "db \<Rightarrow> string \<Rightarrow> int option" where
  "balance_of d uid = map_option walletBalance (map_of (users d) uid)"

fun stock_of :: "db \<Rightarrow> string \<Rightarrow> int option" where
  "stock_of d pid = map_option prod_quantity (products d pid)"

text \<open>The completed transactions that reference an invoice.\<close>

fun settlements_of :: "db \<Rightarrow> string \<Rightarrow> txn list" where
  "settlements_of d invoiceId =
     filter (\<lambda>t. status t = tx_completed \<and> map_of (metadata t) ''invoiceId'' = Some invoiceId)
       (transactions d)"

text \<open>Every wallet balance is non-negative.\<close>

fun nonneg_balances :: "db \<Rightarrow> bool" where
  "nonneg_balances d = list_all (\<lambda>(uid, u). 0 \<le> walletBalance u) (users d)"

section \<open>A concrete store\<close>

text \<open>
  Three active accounts (balances 1000, 5000 and 500), one company owned by the third,
  an open invoice, a cancelled one and one past its due date (each of total 115), five
  pending orders, one paid order and two products (10 and 1 in stock). The orders
  \<open>ord3\<close> to \<open>ord6\<close> ask for 5 gadgets; \<open>ord4\<close> is paid, and \<open>ord6\<close> names a company
  that does not exist. Time 1000 is past the due date 10.
\<close>

definition demo_db :: db where
  "demo_db =
     \<lparr>users =
        [(''alice'', \<lparr>email = ''alice@example.com'', walletBalance = 1000,
                      isActive = True, user_updatedAt = 0\<rparr>),
         (''bob'', \<lparr>email = ''bob@example.com'', walletBalance = 5000,
                    isActive = True, user_updatedAt = 0\<rparr>),
         (''owner'', \<lparr>email = ''owner@example.com'', walletBalance = 500,
                      isActive = True, user_updatedAt = 0\<rparr>)],
      companies = [''acme'' \<mapsto> \<lparr>ownerId = ''owner''\<rparr>],
      invoices =
        [''inv1'' \<mapsto> \<lparr>inv_companyId = ''acme'', invoiceNumber = ''INV-1'', inv_total = 115,
                        inv_status = inv_sent, dueDate = 2000, paidAt = None,
                        inv_paymentTransactionId = None, inv_updatedAt = 0\<rparr>,
         ''inv2'' \<mapsto> \<lparr>inv_companyId = ''acme'', invoiceNumber = ''INV-2'', inv_total = 115,
                        inv_status = inv_cancelled, dueDate = 2000, paidAt = None,
                        inv_paymentTransactionId = None, inv_updatedAt = 0\<rparr>,
         ''inv3'' \<mapsto> \<lparr>inv_companyId = ''acme'', invoiceNumber = ''INV-3'', inv_total = 115,
                        inv_status = inv_sent, dueDate = 10, paidAt = None,
                        inv_paymentTransactionId = None, inv_updatedAt = 0\<rparr>],
      orders =
        [''ord1'' \<mapsto> \<lparr>ord_companyId = ''acme'', customerId = ''bob'',
                        items = [\<lparr>productId = ''widget'', item_quantity = 2\<rparr>],
                        ord_total = 5750, ord_status = ord_pending,
                        ord_paymentTransactionId = None, ord_updatedAt = 0\<rparr>,
         ''ord2'' \<mapsto> \<lparr>ord_companyId = ''acme'', customerId = ''alice'',
                        items = [\<lparr>productId = ''widget'', item_quantity = 1\<rparr>],
                        ord_total = 300, ord_status = ord_pending,
                        ord_paymentTransactionId = None, ord_updatedAt = 0\<rparr>,
         ''ord3'' \<mapsto> \<lparr>ord_companyId = ''acme'', customerId = ''bob'',
                        items = [\<lparr>productId = ''widget'', item_quantity = 2\<rparr>,
                                 \<lparr>productId = ''gadget'', item_quantity = 5\<rparr>],
                        ord_total = 700, ord_status = ord_pending,
                        ord_paymentTransactionId = None, ord_updatedAt = 0\<rparr>,
         ''ord4'' \<mapsto> \<lparr>ord_companyId = ''acme'', customerId = ''bob'',
                        items = [\<lparr>productId = ''gadget'', item_quantity = 5\<rparr>],
                        ord_total = 500, ord_status = ord_paid,
                        ord_paymentTransactionId = None, ord_updatedAt = 0\<rparr>,
         ''ord5'' \<mapsto> \<lparr>ord_companyId = ''acme'', customerId = ''bob'',
                        items = [\<lparr>productId = ''gadget'', item_quantity = 5\<rparr>,
                                 \<lparr>productId = ''widget'', item_quantity = 2\<rparr>],
                        ord_total = 700, ord_status = ord_pending,
                        ord_paymentTransactionId = None, ord_updatedAt = 0\<rparr>,
         ''ord6'' \<mapsto> \<lparr>ord_companyId = ''ghost'', customerId = ''bob'',
                        items = [\<lparr>productId = ''gadget'', item_quantity = 5\<rparr>],
                        ord_total = 500, ord_status = ord_pending,
                        ord_paymentTransactionId = None, ord_updatedAt = 0\<rparr>],
      products =
        [''widget'' \<mapsto> \<lparr>name = ''Widget'', prod_quantity = 10, prod_isActive = True,
                          prod_updatedAt = 0\<rparr>,
         ''gadget'' \<mapsto> \<lparr>name = ''Gadget'', prod_quantity = 1, prod_isActive = True,
                          prod_updatedAt = 0\<rparr>],
      transactions = []\<rparr>"


section \<open>Transactions that fail\<close>

lemma runTransaction_failure:
  "runTransaction body d = (d', Inl e) \<Longrightarrow> d' = d"
  by (auto split: sum.splits prod.splits)

lemma processPayment_failure_unchanged:
  "processPayment now d data = (d', Inl e) \<Longrightarrow> d' = d"
  unfolding processPayment.simps by (rule runTransaction_failure)

text \<open>
  Claim C3. Whenever a precondition of the ledger transfer is violated (the payer or the
  receiver does not exist, one of them is inactive, or the type is not
  \<open>wallet_topup\<close> and the payer's balance is below the amount), \<open>processPayment\<close>
  returns a failure, the failure names a violation that does hold (payer or receiver not
  found, users inactive, insufficient wallet balance), and the store it returns is the
  store it was given: no account changes and no transaction record is inserted.
\<close>

theorem processPayment_violation_aborts:
  assumes "map_of (users d) (payerId data) = None
         \<or> map_of (users d) (receiverId data) = None
         \<or> (\<exists>p. map_of (users d) (payerId data) = Some p \<and> \<not> isActive p)
         \<or> (\<exists>r. map_of (users d) (receiverId data) = Some r \<and> \<not> isActive r)
         \<or> (ptype data \<noteq> wallet_topup \<and>
             (\<exists>p. map_of (users d) (payerId data) = Some p \<and> walletBalance p < amount data))"
  shows "\<exists>e. processPayment now d data = (d, Inl e) \<and>
     (e = Payer_not_found \<and> map_of (users d) (payerId data) = None
      \<or> e = Receiver_not_found \<and> map_of (users d) (receiverId data) = None
      \<or> e = Users_inactive \<and>
          ((\<exists>p. map_of (users d) (payerId data) = Some p \<and> \<not> isActive p)
           \<or> (\<exists>r. map_of (users d) (receiverId data) = Some r \<and> \<not> isActive r))
      \<or> e = Insufficient_wallet_balance \<and> ptype data \<noteq> wallet_topup \<and>
          (\<exists>p. map_of (users d) (payerId data) = Some p \<and> walletBalance p < amount data))"
proof (cases "map_of (users d) (payerId data)")
  case None
  then show ?thesis by simp
next
  case (Some p)
  note payer = Some
  show ?thesis
  proof (cases "map_of (users d) (receiverId data)")
    case None
    with payer show ?thesis by simp
  next
    case (Some r)
    with payer assms show ?thesis by auto
  qed
qed

theorem processPayment_violation_aborts_witness:
  "balance_of demo_db ''bob'' = Some 5000 \<and>
   processPayment 1000 demo_db
     \<lparr>payerId = ''bob'', receiverId = ''owner'', companyId = None, amount = 5750,
      ptype = transfer, sourceApp = payflow, description = ''rent'', metadata = []\<rparr>
   = (demo_db, Inl Insufficient_wallet_balance)"
  using processPayment_violation_aborts
    [of demo_db
        "\<lparr>payerId = ''bob'', receiverId = ''owner'', companyId = None, amount = 5750,
          ptype = transfer, sourceApp = payflow, description = ''rent'', metadata = []\<rparr>"
        1000]
  by (simp add: demo_db_def)

section \<open>Stock updates are all or nothing\<close>







section \<open>Where the code departs from the specification\<close>

text \<open>
  Claim C1 (conservation). A transfer whose payer and receiver are the same account
  buffers two updates of one document, both computed from the balance read at the
  start; the second one (the credit) replaces the first (the debit). Here the owner of
  the company pays the company's own invoice \<open>inv1\<close> of 115: the call succeeds, its
  record has type \<open>invoice_payment\<close>, the owner's balance goes from 500 to 615 and the
  sum of all balances from 6500 to 6615, with no top-up anywhere.
\<close>

theorem payInvoice_by_owner_creates_money:
  "map_option ownerId (companies demo_db ''acme'') = Some ''owner'' \<and>
   snd (payInvoice 1000 demo_db ''inv1'' ''owner'') = Inr 0 \<and>
   map (\<lambda>t. (payerId t, receiverId t, amount t, ptype t, status t))
     (transactions (fst (payInvoice 1000 demo_db ''inv1'' ''owner'')))
     = [(''owner'', ''owner'', 115, invoice_payment, tx_completed)] \<and>
   balance_of demo_db ''owner'' = Some 500 \<and>
   balance_of (fst (payInvoice 1000 demo_db ''inv1'' ''owner'')) ''owner'' = Some 615 \<and>
   balance_sum demo_db = 6500 \<and>
   balance_sum (fst (payInvoice 1000 demo_db ''inv1'' ''owner'')) = 6615"
  by (simp add: demo_db_def)

text \<open>
  Claim C2 (no negative balance). \<open>processPayment\<close> never looks at the sign of the
  amount, and \<open>validatePaymentAmount\<close>, which rejects it, is not called. From a store
  whose balances are all non-negative, a transfer of \<open>-6000\<close> from alice to bob passes
  the balance check (1000 is not below \<open>-6000\<close>), raises alice to 7000 and leaves bob
  with \<open>-1000\<close>.
\<close>

theorem processPayment_negative_amount_overdraws:
  "nonneg_balances demo_db \<and>
   validatePaymentAmount (- 6000) = Some Amount_not_positive \<and>
   snd (processPayment 1000 demo_db
     \<lparr>payerId = ''alice'', receiverId = ''bob'', companyId = Some ''acme'', amount = - 6000,
      ptype = transfer, sourceApp = payflow, description = ''refund'', metadata = []\<rparr>)
     = Inr 0 \<and>
   balance_of (fst (processPayment 1000 demo_db
     \<lparr>payerId = ''alice'', receiverId = ''bob'', companyId = Some ''acme'', amount = - 6000,
      ptype = transfer, sourceApp = payflow, description = ''refund'', metadata = []\<rparr>))
     ''alice'' = Some 7000 \<and>
   balance_of (fst (processPayment 1000 demo_db
     \<lparr>payerId = ''alice'', receiverId = ''bob'', companyId = Some ''acme'', amount = - 6000,
      ptype = transfer, sourceApp = payflow, description = ''refund'', metadata = []\<rparr>))
     ''bob'' = Some (- 1000) \<and>
   \<not> nonneg_balances (fst (processPayment 1000 demo_db
     \<lparr>payerId = ''alice'', receiverId = ''bob'', companyId = Some ''acme'', amount = - 6000,
      ptype = transfer, sourceApp = payflow, description = ''refund'', metadata = []\<rparr>))"
  by (simp add: demo_db_def)

text \<open>
  Claim C4 (at most one settlement). The status check of \<open>payInvoice\<close> is a read outside
  the transaction. When two calls for the open invoice \<open>inv1\<close> both read before either
  transfers, both succeed (transactions 0 and 1), two completed transactions reference
  the invoice, and the owner is paid twice (500 + 2 * 115). Run one after the other, the
  second call fails with \<open>Invoice_already_paid\<close>.
\<close>

theorem payInvoice_race_settles_twice:
  "fst (snd (payInvoice_race 1000 demo_db ''inv1'' ''alice'' ''bob'')) = Inr 0 \<and>
   snd (snd (payInvoice_race 1000 demo_db ''inv1'' ''alice'' ''bob'')) = Inr 1 \<and>
   length (settlements_of (fst (payInvoice_race 1000 demo_db ''inv1'' ''alice'' ''bob'')) ''inv1'')
     = 2 \<and>
   balance_of (fst (payInvoice_race 1000 demo_db ''inv1'' ''alice'' ''bob'')) ''owner''
     = Some 730 \<and>
   snd (payInvoice 1001 (fst (payInvoice 1000 demo_db ''inv1'' ''alice'')) ''inv1'' ''bob'')
     = Inl Invoice_already_paid"
  by (simp add: demo_db_def)

text \<open>
  Claim C5 (failed order payment). \<open>payOrder\<close> commits the stock decrement before it
  calls \<open>processPayment\<close> and has no path that puts the stock back. Bob (balance 5000,
  that is 50.00) pays the order \<open>ord1\<close> of total 5750 (57.50) for two widgets: the call
  fails with \<open>Insufficient_wallet_balance\<close>, accounts and orders are unchanged, and the
  widget stock has gone from 10 to 8.
\<close>

theorem payOrder_failed_payment_keeps_stock_decrement:
  "balance_of demo_db ''bob'' = Some 5000 \<and>
   map_option ord_total (orders demo_db ''ord1'') = Some 5750 \<and>
   snd (payOrder 1000 demo_db ''ord1'' ''bob'') = Inl Insufficient_wallet_balance \<and>
   users (fst (payOrder 1000 demo_db ''ord1'' ''bob'')) = users demo_db \<and>
   orders (fst (payOrder 1000 demo_db ''ord1'' ''bob'')) = orders demo_db \<and>
   stock_of demo_db ''widget'' = Some 10 \<and>
   stock_of (fst (payOrder 1000 demo_db ''ord1'' ''bob'')) ''widget'' = Some 8"
  by (simp add: demo_db_def)

text \<open>
  Claim C7 (invoice rejection). \<open>payInvoice\<close> rejects a paid invoice only. The cancelled
  invoice \<open>inv2\<close> and the invoice \<open>inv3\<close>, whose due date 10 is before the current time
  1000, are both rejected by \<open>validateInvoicePayment\<close> and both settled by \<open>payInvoice\<close>:
  alice is debited 115 and the cancelled invoice becomes paid.
\<close>

theorem payInvoice_accepts_cancelled_and_overdue:
  "map_option (\<lambda>i. validateInvoicePayment 1000 i ''alice'') (invoices demo_db ''inv2'')
     = Some (Some Invoice_cancelled) \<and>
   snd (payInvoice 1000 demo_db ''inv2'' ''alice'') = Inr 0 \<and>
   balance_of (fst (payInvoice 1000 demo_db ''inv2'' ''alice'')) ''alice'' = Some 885 \<and>
   map_option inv_status (invoices (fst (payInvoice 1000 demo_db ''inv2'' ''alice'')) ''inv2'')
     = Some inv_paid \<and>
   map_option (\<lambda>i. validateInvoicePayment 1000 i ''alice'') (invoices demo_db ''inv3'')
     = Some (Some Invoice_overdue) \<and>
   snd (payInvoice 1000 demo_db ''inv3'' ''alice'') = Inr 0 \<and>
   balance_of (fst (payInvoice 1000 demo_db ''inv3'' ''alice'')) ''alice'' = Some 885"
  by (simp add: demo_db_def)

lemma processPayment_without_companyId:
  "companyId data = None \<Longrightarrow> \<exists>e. processPayment now d data = (d, Inl e)"
  by (simp split: option.splits)

text \<open>
  Claim C9 (top-up). \<open>topUpWallet\<close> passes no \<open>companyId\<close>, so the record it asks
  \<open>processPayment\<close> to store has an undefined field and the store refuses it: no call of
  \<open>topUpWallet\<close> succeeds, whatever its arguments, and none changes the store; alice's
  top-up of 200 fails with \<open>Undefined_field_value\<close>. A transfer of type \<open>wallet_topup\<close>
  can only succeed through \<open>processPayment\<close> with a \<open>companyId\<close>, and there payer and
  receiver need not be the same account: alice tops up bob, she keeps her 1000, bob goes
  from 5000 to 5200, and the completed record names two accounts.
\<close>

theorem topUpWallet_always_fails:
  "(\<exists>e. topUpWallet now d userId amt method md = (d, Inl e)) \<and>
   topUpWallet 1000 demo_db ''alice'' 200 momo [] = (demo_db, Inl Undefined_field_value) \<and>
   snd (processPayment 1000 demo_db
     \<lparr>payerId = ''alice'', receiverId = ''bob'', companyId = Some ''acme'', amount = 200,
      ptype = wallet_topup, sourceApp = payflow, description = ''gift'', metadata = []\<rparr>)
     = Inr 0 \<and>
   map (\<lambda>t. (payerId t, receiverId t, amount t, ptype t, status t))
     (transactions (fst (processPayment 1000 demo_db
       \<lparr>payerId = ''alice'', receiverId = ''bob'', companyId = Some ''acme'', amount = 200,
        ptype = wallet_topup, sourceApp = payflow, description = ''gift'', metadata = []\<rparr>)))
     = [(''alice'', ''bob'', 200, wallet_topup, tx_completed)] \<and>
   balance_of (fst (processPayment 1000 demo_db
     \<lparr>payerId = ''alice'', receiverId = ''bob'', companyId = Some ''acme'', amount = 200,
      ptype = wallet_topup, sourceApp = payflow, description = ''gift'', metadata = []\<rparr>))
     ''alice'' = Some 1000 \<and>
   balance_of (fst (processPayment 1000 demo_db
     \<lparr>payerId = ''alice'', receiverId = ''bob'', companyId = Some ''acme'', amount = 200,
      ptype = wallet_topup, sourceApp = payflow, description = ''gift'', metadata = []\<rparr>))
     ''bob'' = Some 5200"
proof (intro conjI)
  show "\<exists>e. topUpWallet now d userId amt method md = (d, Inl e)"
    unfolding topUpWallet.simps by (rule processPayment_without_companyId) simp
qed (simp_all add: demo_db_def)

text \<open>
  Claim C10 (order ownership). \<open>payOrder\<close> never compares \<open>order.customerId\<close> with the
  payer; only \<open>validateOrderPayment\<close> does. The order \<open>ord2\<close> belongs to alice; bob pays
  it: the validator answers \<open>Not_own_order\<close>, and \<open>payOrder\<close> succeeds, debits bob 300,
  marks the order paid and takes a widget from stock.
\<close>

theorem payOrder_accepts_foreign_payer:
  "map_option customerId (orders demo_db ''ord2'') = Some ''alice'' \<and>
   map_option (\<lambda>order. validateOrderPayment order ''bob'') (orders demo_db ''ord2'')
     = Some (Some Not_own_order) \<and>
   snd (payOrder 1000 demo_db ''ord2'' ''bob'') = Inr 0 \<and>
   balance_of (fst (payOrder 1000 demo_db ''ord2'' ''bob'')) ''bob'' = Some 4700 \<and>
   map_option ord_status (orders (fst (payOrder 1000 demo_db ''ord2'' ''bob'')) ''ord2'')
     = Some ord_paid \<and>
   stock_of (fst (payOrder 1000 demo_db ''ord2'' ''bob'')) ''widget'' = Some 9"
  by (simp add: demo_db_def)

section \<open>Transaction records\<close>















end
